theory Spec2Isabelle
  imports Complex_Main "HOL-Library.Multiset" "HOL-Library.Char_ord" "HOL-Library.List_Lexorder"
begin

section \<open>Data model\<close>

text \<open>
  The ORM classes live in \<^verbatim>\<open>app/models.py\<close>; their columns are the fields of the
  pydantic schemas in \<^verbatim>\<open>app/schemas.py\<close> (\<^verbatim>\<open>Book\<close>, \<^verbatim>\<open>BorrowedBook\<close>, \<^verbatim>\<open>User\<close>).
  Every class has a primary key called \<^verbatim>\<open>id\<close>; since \<open>id\<close> is HOL's identity function and
  field names are global, the three keys are written \<open>Book_id\<close>, \<open>BorrowedBook_id\<close> and
  \<open>User_id\<close>.  Python's \<^verbatim>\<open>int\<close> is \<open>int\<close>, \<^verbatim>\<open>str\<close> is \<open>string\<close> (ASCII text), a
  \<^verbatim>\<open>date\<close> is its day number, and \<^verbatim>\<open>Optional[date]\<close> is an \<open>option\<close>.
\<close>

record Book =
  Book_id :: int
  title :: string
  author :: string
  isbn :: string
  genre :: string

record BorrowedBook =
  BorrowedBook_id :: int
  book_id :: int
  user_id :: int
  due_date :: int
  returned_date :: "int option"

record User =
  User_id :: int
  full_name :: string
  email :: string
  role :: string

text \<open>
  The database session as far as the recommendation path reads it: the rows of the two
  tables, in the order a scan without \<^verbatim>\<open>ORDER BY\<close> yields them.
\<close>

record Session =
  books :: "Book list"
  borrowed_books :: "BorrowedBook list"

text \<open>
  The two exceptions that escape \<^verbatim>\<open>recommendations.get_recommendations\<close>: pandas raises
  \<^verbatim>\<open>KeyError\<close> when a column is read from a frame that has none, and scikit-learn's
  vectorizer raises \<^verbatim>\<open>ValueError\<close> (\<^verbatim>\<open>empty vocabulary; perhaps the documents only contain
  stop words\<close>) when fitting finds no term.
\<close>

datatype error = KeyError | ValueError

section \<open>The text vectorizer (\<^verbatim>\<open>TfidfVectorizer(stop_words='english')\<close>)\<close>

text \<open>
  scikit-learn's vectorizer with its default settings: lower-casing, the token pattern
  \<^verbatim>\<open>(?u)\b\w\w+\b\<close> (maximal runs of two or more word characters), removal of the stop
  words, a vocabulary sorted by term, raw term counts, the smoothed inverse document
  frequency \<open>ln ((1 + n) / (1 + df)) + 1\<close> and rows scaled to Euclidean length one (a row of
  zeros is left as it is).  Numbers are real numbers; the rounding of the floating-point
  arithmetic is not modelled.  The stop-word list itself (scikit-learn's
  \<^verbatim>\<open>ENGLISH_STOP_WORDS\<close>) is data outside the repository and is a parameter, here \<open>english\<close>.
  Texts are ASCII: Python's \<^verbatim>\<open>\w\<close> and \<^verbatim>\<open>str.lower()\<close> also cover letters and digits
  outside ASCII, on which \<open>is_word_char\<close> and \<open>lower\<close> below do not follow them.
\<close>

definition is_word_char :: "char \<Rightarrow> bool" where
  "is_word_char c =
     (let n = (of_char c :: nat)
      in (48 \<le> n \<and> n \<le> 57) \<or> (65 \<le> n \<and> n \<le> 90) \<or> n = 95 \<or> (97 \<le> n \<and> n \<le> 122))"

text \<open>\<^verbatim>\<open>str.lower()\<close> on ASCII text: the capital letters are replaced, all else is kept.\<close>

definition lower :: "string \<Rightarrow> string" where
  "lower s =
     map (\<lambda>c. case map_of (zip ''ABCDEFGHIJKLMNOPQRSTUVWXYZ'' ''abcdefghijklmnopqrstuvwxyz'') c of
                None \<Rightarrow> c
              | Some l \<Rightarrow> l) s"

text \<open>
  \<^verbatim>\<open>token_pattern.findall(doc)\<close>: \<open>run\<close> is the run of word characters read so far; a run
  ends at the first character that is not a word character, or at the end of the text,
  and is a token when it has at least two characters.
\<close>

fun findall :: "string \<Rightarrow> string \<Rightarrow> string list" where
  "findall run [] = (if 2 \<le> length run then [run] else [])"
| "findall run (c # cs) =
     (if is_word_char c then findall (run @ [c]) cs
      else (if 2 \<le> length run then [run] else []) @ findall [] cs)"

definition build_analyzer :: "string list \<Rightarrow> string \<Rightarrow> string list" where
  "build_analyzer stop doc = filter (\<lambda>w. w \<notin> set stop) (findall [] (lower doc))"

record TfidfVectorizer =
  stop_words :: "string list"
  vocabulary' :: "string list"
  idf' :: "real list"

definition TfidfVectorizer_init :: "string list \<Rightarrow> TfidfVectorizer" where
  "TfidfVectorizer_init stop = \<lparr>stop_words = stop, vocabulary' = [], idf' = []\<rparr>"

definition count_vector :: "string list \<Rightarrow> string list \<Rightarrow> real list" where
  "count_vector vocabulary tokens = map (\<lambda>t. real (count_list tokens t)) vocabulary"

definition document_frequency :: "string list list \<Rightarrow> string \<Rightarrow> nat" where
  "document_frequency analyzed t = length (filter (\<lambda>tokens. t \<in> set tokens) analyzed)"

definition smooth_idf :: "nat \<Rightarrow> nat \<Rightarrow> real" where
  "smooth_idf n_samples df = ln ((1 + real n_samples) / (1 + real df)) + 1"

definition l2_norm :: "real list \<Rightarrow> real" where
  "l2_norm v = sqrt (sum_list (map (\<lambda>x. x * x) v))"

text \<open>\<^verbatim>\<open>sklearn.preprocessing.normalize\<close>: a norm of zero is replaced by one before dividing.\<close>

definition normalize_l2 :: "real list \<Rightarrow> real list" where
  "normalize_l2 v = (let n = l2_norm v in map (\<lambda>x. x / (if n = 0 then 1 else n)) v)"

definition tfidf_row :: "TfidfVectorizer \<Rightarrow> string \<Rightarrow> real list" where
  "tfidf_row vz doc =
     normalize_l2
       (map2 (*) (count_vector (vocabulary' vz) (build_analyzer (stop_words vz) doc)) (idf' vz))"

definition transform :: "TfidfVectorizer \<Rightarrow> string list \<Rightarrow> real list list" where
  "transform vz raw_documents = map (tfidf_row vz) raw_documents"

definition fit :: "TfidfVectorizer \<Rightarrow> string list \<Rightarrow> error + TfidfVectorizer" where
  "fit vz raw_documents =
     (let analyzed = map (build_analyzer (stop_words vz)) raw_documents;
          vocabulary = sort (remdups (concat analyzed))
      in if vocabulary = [] then Inl ValueError
         else Inr (vz\<lparr>vocabulary' := vocabulary,
                      idf' := map (\<lambda>t. smooth_idf (length raw_documents)
                                          (document_frequency analyzed t)) vocabulary\<rparr>))"

definition fit_transform ::
  "TfidfVectorizer \<Rightarrow> string list \<Rightarrow> error + (TfidfVectorizer \<times> real list list)" where
  "fit_transform vz raw_documents =
     (case fit vz raw_documents of
        Inl e \<Rightarrow> Inl e
      | Inr fitted \<Rightarrow> Inr (fitted, transform fitted raw_documents))"

section \<open>Similarity and ranking primitives\<close>

definition dot :: "real list \<Rightarrow> real list \<Rightarrow> real" where
  "dot u v = sum_list (map2 (*) u v)"

text \<open>
  \<^verbatim>\<open>sklearn.metrics.pairwise.cosine_similarity(X, Y)\<close>: both arguments are normalised row
  by row, then multiplied; the result has one row per row of \<open>X\<close> and one column per row
  of \<open>Y\<close>.
\<close>

definition cosine_similarity :: "real list list \<Rightarrow> real list list \<Rightarrow> real list list" where
  "cosine_similarity X Y = map (\<lambda>x. map (\<lambda>y. dot (normalize_l2 x) (normalize_l2 y)) Y) X"

text \<open>\<^verbatim>\<open>K.mean(axis=0)\<close> for an array \<open>K\<close> with \<open>ncols\<close> columns: the mean of each column.\<close>

definition mean_axis0 :: "real list list \<Rightarrow> nat \<Rightarrow> real list" where
  "mean_axis0 K ncols =
     map (\<lambda>j. sum_list (map (\<lambda>row. row ! j) K) / real (length K)) [0..<ncols]"

text \<open>
  numpy's \<^verbatim>\<open>argsort()\<close> is called with its default \<^verbatim>\<open>kind\<close>, which numpy documents as not
  stable: it returns some permutation of the positions along which the values ascend.
  The core is therefore parametric in \<open>argsort\<close>, and \<open>argsort_ok\<close> is what numpy promises.
  \<open>argsort_stable\<close> is the stable member of the family: what \<^verbatim>\<open>kind='stable'\<close> computes,
  and what the default computes wherever it sorts a short array by insertion.  As numpy
  returns positions of the array, the read \<^verbatim>\<open>all_books[idx]\<close> is always in range.
\<close>

definition is_argsort :: "real list \<Rightarrow> nat list \<Rightarrow> bool" where
  "is_argsort a p = (mset p = mset [0..<length a] \<and> sorted (map (\<lambda>i. a ! i) p))"

definition argsort_ok :: "(real list \<Rightarrow> nat list) \<Rightarrow> bool" where
  "argsort_ok argsort = (\<forall>a. is_argsort a (argsort a))"

definition argsort_stable :: "real list \<Rightarrow> nat list" where
  "argsort_stable a = sort_key (\<lambda>i. a ! i) [0..<length a]"


section \<open>\<^verbatim>\<open>app/recommendations.py\<close>\<close>

definition content :: "Book \<Rightarrow> string" where
  "content book = title book @ '' '' @ author book @ '' '' @ genre book"

text \<open>
  Lines 10 to 22: the frames, the fitted matrix, the user profile, the similarity matrix
  and its column means.  \<^verbatim>\<open>pd.DataFrame([])\<close> has no columns, so reading
  \<^verbatim>\<open>all_books_df['title']\<close> of an empty catalog raises \<^verbatim>\<open>KeyError\<close>.
\<close>

definition recommendation_scores :: "string list \<Rightarrow> Book list \<Rightarrow> Book list \<Rightarrow> error + real list" where
  "recommendation_scores english user_borrowed_books all_books =
     (if all_books = [] then Inl KeyError
      else case fit_transform (TfidfVectorizer_init english) (map content all_books) of
        Inl e \<Rightarrow> Inl e
      | Inr (tfidf_vectorizer, tfidf_matrix) \<Rightarrow>
          let user_profile = transform tfidf_vectorizer (map title user_borrowed_books);
              cosine_sim = cosine_similarity user_profile tfidf_matrix
          in Inr (mean_axis0 cosine_sim (length tfidf_matrix)))"

text \<open>Lines 26 to 29, the positions the loop keeps: those whose book is not borrowed.\<close>

definition unborrowed_indices :: "Book list \<Rightarrow> Book list \<Rightarrow> nat list \<Rightarrow> nat list" where
  "unborrowed_indices user_borrowed_books all_books indices =
     filter (\<lambda>idx. Book_id (all_books ! idx) \<notin> set (map Book_id user_borrowed_books)) indices"

definition get_recommendations ::
  "(real list \<Rightarrow> nat list) \<Rightarrow> string list \<Rightarrow> Book list \<Rightarrow> Book list \<Rightarrow> error + Book list" where
  "get_recommendations argsort english user_borrowed_books all_books =
     (if user_borrowed_books = [] then Inr []
      else case recommendation_scores english user_borrowed_books all_books of
        Inl e \<Rightarrow> Inl e
      | Inr scores \<Rightarrow>
          let recommended_book_indices = rev (argsort scores)
          in Inr (map (\<lambda>idx. all_books ! idx)
                    (unborrowed_indices user_borrowed_books all_books recommended_book_indices)))"

section \<open>\<^verbatim>\<open>app/crud.py\<close> and the endpoint\<close>

text \<open>Python's slice \<^verbatim>\<open>xs[:limit]\<close>: a negative \<open>limit\<close> counts from the end.\<close>

definition slice_to :: "'a list \<Rightarrow> int \<Rightarrow> 'a list" where
  "slice_to xs limit =
     (if 0 \<le> limit then take (nat limit) xs else take (length xs - nat (- limit)) xs)"

text \<open>
  The specification's \<^verbatim>\<open>recommend(borrowed_items, catalog, limit)\<close>: the core followed by
  the truncation of \<^verbatim>\<open>crud.get_recommendations\<close> (lines 140 to 142).
\<close>

definition recommend ::
  "(real list \<Rightarrow> nat list) \<Rightarrow> string list \<Rightarrow> Book list \<Rightarrow> Book list \<Rightarrow> int \<Rightarrow> error + Book list" where
  "recommend argsort english borrowed_items catalog limit =
     (case get_recommendations argsort english borrowed_items catalog of
        Inl e \<Rightarrow> Inl e
      | Inr recommended_books \<Rightarrow> Inr (slice_to recommended_books limit))"

text \<open>
  SQLAlchemy's \<^verbatim>\<open>Query\<close>, when it returns whole entities, keeps one object per primary key
  (the first row of each): \<^verbatim>\<open>util.unique_list(rows, id)\<close>.
\<close>

fun unique_list :: "'k list \<Rightarrow> ('a \<Rightarrow> 'k) \<Rightarrow> 'a list \<Rightarrow> 'a list" where
  "unique_list seen key [] = []"
| "unique_list seen key (x # xs) =
     (if key x \<in> set seen then unique_list seen key xs
      else x # unique_list (key x # seen) key xs)"

text \<open>
  \<^verbatim>\<open>db.query(models.Book).join(models.BorrowedBook).filter(models.BorrowedBook.user_id ==
  user_id).all()\<close>: the rows of the inner join of the book table with the borrow records on
  the foreign key \<^verbatim>\<open>book_id\<close>, restricted to the user, as \<^verbatim>\<open>Book\<close> entities.  SQL fixes no
  order for them; they are listed by borrow record, and \<open>get_recommendations_perm\<close> below
  shows that the order of the borrowed list does not matter.
\<close>

definition joined_rows :: "Session \<Rightarrow> int \<Rightarrow> Book list" where
  "joined_rows db uid =
     concat (map (\<lambda>r. filter (\<lambda>b. Book_id b = book_id r) (books db))
                 (filter (\<lambda>r. user_id r = uid) (borrowed_books db)))"


definition query_user_borrowed_books :: "Session \<Rightarrow> int \<Rightarrow> Book list" where
  "query_user_borrowed_books db uid = unique_list [] Book_id (joined_rows db uid)"

text \<open>\<^verbatim>\<open>limit: int = 10\<close>: \<open>None\<close> is a call that leaves the argument out.\<close>

definition crud_get_recommendations ::
  "(real list \<Rightarrow> nat list) \<Rightarrow> string list \<Rightarrow> Session \<Rightarrow> int \<Rightarrow> int option \<Rightarrow> error + Book list" where
  "crud_get_recommendations argsort english db uid limit =
     (let user_borrowed_books = query_user_borrowed_books db uid;
          all_books = books db
      in case get_recommendations argsort english user_borrowed_books all_books of
           Inl e \<Rightarrow> Inl e
         | Inr recommended_books \<Rightarrow>
             Inr (slice_to recommended_books (case limit of None \<Rightarrow> 10 | Some k \<Rightarrow> k)))"

text \<open>\<^verbatim>\<open>main.get_my_recommendations\<close>, after authentication has produced \<open>current_user\<close>.\<close>

definition get_my_recommendations ::
  "(real list \<Rightarrow> nat list) \<Rightarrow> string list \<Rightarrow> Session \<Rightarrow> User \<Rightarrow> error + Book list" where
  "get_my_recommendations argsort english db current_user =
     crud_get_recommendations argsort english db (User_id current_user) None"

text \<open>
  The criteria of a \<^verbatim>\<open>filter(...)\<close> call as data.  A comparison written with the column's
  overloaded operators builds an SQL expression; a Python value that is already a
  \<^verbatim>\<open>bool\<close> is passed on as the SQL constant.
\<close>

datatype criterion = UserIdEq int | ReturnedDateIsNull | Const bool

fun holds :: "criterion \<Rightarrow> BorrowedBook \<Rightarrow> bool" where
  "holds (UserIdEq uid) r = (user_id r = uid)"
| "holds ReturnedDateIsNull r = (returned_date r = None)"
| "holds (Const b) r = b"

text \<open>
  \<^verbatim>\<open>models.BorrowedBook.returned_date is None\<close> is Python's identity test on the column
  attribute object itself, which is not \<^verbatim>\<open>None\<close>.
\<close>

definition returned_date_is_None :: criterion where
  "returned_date_is_None = Const False"

text \<open>
  \<^verbatim>\<open>crud.get_borrowed_books_by_user\<close>; \<open>skip\<close> and \<open>limit\<close> are the non-negative
  \<^verbatim>\<open>OFFSET\<close> and \<^verbatim>\<open>LIMIT\<close> of the query.
\<close>

definition get_borrowed_books_by_user :: "Session \<Rightarrow> int \<Rightarrow> nat \<Rightarrow> nat \<Rightarrow> BorrowedBook list" where
  "get_borrowed_books_by_user db uid skip limit =
     take limit (drop skip
       (filter (\<lambda>r. list_all (\<lambda>c. holds c r) [UserIdEq uid, returned_date_is_None])
               (borrowed_books db)))"

section \<open>The specification's vector space and similarity\<close>

text \<open>
  The vector space as the specification words it (sections 3, 4.1 and 4.2), to be compared
  with what the fitted vectorizer computes.  The document of a catalog item is its title,
  author and genre joined by single spaces.  The vocabulary is the terms of the catalog
  documents; the weight of a term is \<open>ln ((1 + N) / (1 + df)) + 1\<close>, with \<open>N\<close> the number of
  catalog documents and \<open>df\<close> the number of them that contain the term; the vector of a text
  has, for each vocabulary term, its number of occurrences in the text times that weight,
  scaled to Euclidean length one unless all components are 0.  Terms are what
  \<open>build_analyzer\<close> yields, which is the vectorizer's analyzer on texts of ASCII characters.
\<close>

definition ascii :: "string \<Rightarrow> bool" where
  "ascii s = list_all (\<lambda>c. (of_char c :: nat) < 128) s"

definition document_spec :: "Book \<Rightarrow> string" where
  "document_spec item = title item @ '' '' @ author item @ '' '' @ genre item"

definition vocabulary_spec :: "string list \<Rightarrow> string list \<Rightarrow> string list" where
  "vocabulary_spec english documents =
     sort (remdups (concat (map (build_analyzer english) documents)))"

definition idf_spec :: "string list \<Rightarrow> string list \<Rightarrow> string \<Rightarrow> real" where
  "idf_spec english documents t =
     ln ((1 + real (length documents))
         / (1 + real (length (filter (\<lambda>d. t \<in> set (build_analyzer english d)) documents)))) + 1"

definition vector_spec :: "string list \<Rightarrow> string list \<Rightarrow> string \<Rightarrow> real list" where
  "vector_spec english documents doc =
     (let weights = map (\<lambda>t. real (count_list (build_analyzer english doc) t)
                              * idf_spec english documents t)
                        (vocabulary_spec english documents)
      in if list_all (\<lambda>x. x = 0) weights then weights
         else map (\<lambda>x. x / l2_norm weights) weights)"

text \<open>
  The cosine similarity as the specification words it, to be compared with what
  \<open>cosine_similarity\<close> computes: the cosine of the angle between the two vectors, and 0
  whenever one of them is the zero vector.
\<close>

definition cosine_spec :: "real list \<Rightarrow> real list \<Rightarrow> real" where
  "cosine_spec u v =
     (if list_all (\<lambda>x. x = 0) u \<or> list_all (\<lambda>x. x = 0) v then 0
      else dot u v / (l2_norm u * l2_norm v))"

section \<open>Sample data\<close>

text \<open>
  A few entries of the stop-word list; books with ordinary words, one whose title is a
  stop word, one whose fields are single letters, two editions of a poem with no author
  and no genre recorded; a reader and two small databases.
\<close>

definition english_excerpt :: "string list" where
  "english_excerpt = [''a'', ''an'', ''and'', ''it'', ''of'', ''the'', ''to'']"

definition dune :: Book where
  "dune = \<lparr>Book_id = 1, title = ''Dune'', author = ''Herbert'', isbn = ''9780441013593'',
            genre = ''SciFi''\<rparr>"

definition emma :: Book where
  "emma = \<lparr>Book_id = 2, title = ''Emma'', author = ''Austen'', isbn = ''9780141439587'',
            genre = ''Romance''\<rparr>"

definition it_book :: Book where
  "it_book = \<lparr>Book_id = 3, title = ''It'', author = ''King'', isbn = ''9781501142970'',
               genre = ''Horror''\<rparr>"

definition initials :: Book where
  "initials = \<lparr>Book_id = 4, title = ''Q'', author = ''X'', isbn = ''0'', genre = ''Y''\<rparr>"

definition messiah :: Book where
  "messiah = \<lparr>Book_id = 5, title = ''Dune Messiah'', author = ''Herbert'',
               isbn = ''9780593098233'', genre = ''SciFi''\<rparr>"

definition beowulf :: Book where
  "beowulf = \<lparr>Book_id = 10, title = ''Beowulf'', author = '''', isbn = ''9780140449310'',
               genre = ''''\<rparr>"

definition beowulf_verse :: Book where
  "beowulf_verse = \<lparr>Book_id = 11, title = ''Beowulf'', author = '''', isbn = ''9780393320978'',
                     genre = ''''\<rparr>"

definition reader :: User where
  "reader = \<lparr>User_id = 7, full_name = ''Ada Reader'', email = ''ada@example.org'',
              role = ''student''\<rparr>"

definition initials_library :: Session where
  "initials_library =
     \<lparr>books = [initials],
      borrowed_books =
        [\<lparr>BorrowedBook_id = 1, book_id = 4, user_id = 7, due_date = 20, returned_date = None\<rparr>]\<rparr>"


section \<open>Vectors\<close>

lemma sum_squares_nonneg: "0 \<le> sum_list (map (\<lambda>x. x * x) (v :: real list))"
  by (induction v) auto

lemma l2_norm_zero_iff: "l2_norm v = 0 \<longleftrightarrow> (\<forall>x\<in>set v. x = 0)"
proof -
  have "sum_list (map (\<lambda>x. x * x) v) = 0 \<longleftrightarrow> (\<forall>x\<in>set v. x = 0)"
  proof (induction v)
    case Nil
    show ?case by simp
  next
    case (Cons a v)
    have "0 \<le> a * a" by simp
    with sum_squares_nonneg [of v] Cons show ?case
      by (auto simp: add_nonneg_eq_0_iff)
  qed
  then show ?thesis by (simp add: l2_norm_def)
qed

lemma dot_zero_left: "\<forall>x\<in>set u. x = 0 \<Longrightarrow> dot u v = 0"
  unfolding dot_def by (induction u arbitrary: v) (auto simp: zip_Cons1 split: list.splits)

lemma dot_zero_right: "\<forall>x\<in>set v. x = 0 \<Longrightarrow> dot u v = 0"
  unfolding dot_def by (induction v arbitrary: u) (auto simp: zip_Cons split: list.splits)

lemma dot_scaled: "dot (map (\<lambda>x. x / a) u) (map (\<lambda>x. x / b) v) = dot u v / (a * b)"
  unfolding dot_def
proof (induction u arbitrary: v)
  case Nil
  show ?case by simp
next
  case (Cons x u)
  show ?case
  proof (cases v)
    case Nil
    then show ?thesis by simp
  next
    case (Cons y w)
    with Cons.IH [of w] show ?thesis by (simp add: add_divide_distrib)
  qed
qed

lemma dot_normalize_l2:
  "dot (normalize_l2 u) (normalize_l2 v) =
     dot u v / ((if l2_norm u = 0 then 1 else l2_norm u) * (if l2_norm v = 0 then 1 else l2_norm v))"
  unfolding normalize_l2_def Let_def by (rule dot_scaled)

lemma length_normalize_l2: "length (normalize_l2 v) = length v"
  by (simp add: normalize_l2_def Let_def)

text \<open>Each entry of the similarity matrix is the specification's cosine.\<close>

lemma cosine_spec_l2_norm:
  "cosine_spec u v =
     (if l2_norm u = 0 \<or> l2_norm v = 0 then 0 else dot u v / (l2_norm u * l2_norm v))"
  by (simp add: cosine_spec_def l2_norm_zero_iff list_all_iff)

lemma cosine_similarity_entry: "dot (normalize_l2 u) (normalize_l2 v) = cosine_spec u v"
proof (cases "l2_norm u = 0 \<or> l2_norm v = 0")
  case True
  then have "dot u v = 0"
    using dot_zero_left [of u v] dot_zero_right [of v u] by (auto simp: l2_norm_zero_iff)
  with True show ?thesis
    by (simp add: dot_normalize_l2 cosine_spec_l2_norm)
next
  case False
  then show ?thesis
    by (simp add: dot_normalize_l2 cosine_spec_l2_norm)
qed

lemma normalize_l2_cases:
  "normalize_l2 w = (if list_all (\<lambda>x. x = 0) w then w else map (\<lambda>x. x / l2_norm w) w)"
proof (cases "l2_norm w = 0")
  case True
  then show ?thesis
    by (simp add: normalize_l2_def l2_norm_zero_iff list_all_iff)
next
  case False
  then show ?thesis
    by (simp add: normalize_l2_def l2_norm_zero_iff list_all_iff)
qed





section \<open>The fitted vectorizer and the scores\<close>

lemma fit_fields:
  assumes "fit (TfidfVectorizer_init english) docs = Inr vz"
  shows "stop_words vz = english"
    and "vocabulary' vz = sort (remdups (concat (map (build_analyzer english) docs)))"
    and "idf' vz = map (\<lambda>t. smooth_idf (length docs)
                          (document_frequency (map (build_analyzer english) docs) t))
                     (vocabulary' vz)"
  using assms by (auto simp: fit_def TfidfVectorizer_init_def Let_def split: if_splits)

lemma recommendation_scores_fit:
  assumes "fit (TfidfVectorizer_init english) (map content all_books) = Inr vz"
  shows "recommendation_scores english bs all_books =
           Inr (map (\<lambda>j. (\<Sum>i<length bs. cosine_spec (tfidf_row vz (title (bs ! i)))
                                               (tfidf_row vz (content (all_books ! j))))
                          / real (length bs))
                    [0..<length all_books])"
proof -
  have ne: "all_books \<noteq> []"
    using assms by (auto simp: fit_def Let_def)
  have "sum_list (map (\<lambda>row. row ! j)
            (cosine_similarity (transform vz (map title bs)) (transform vz (map content all_books))))
        = (\<Sum>i<length bs. cosine_spec (tfidf_row vz (title (bs ! i)))
                                     (tfidf_row vz (content (all_books ! j))))"
    if "j < length all_books" for j
  proof -
    have "map (\<lambda>row. row ! j)
            (cosine_similarity (transform vz (map title bs)) (transform vz (map content all_books)))
          = map (\<lambda>i. cosine_spec (tfidf_row vz (title (bs ! i)))
                                  (tfidf_row vz (content (all_books ! j))))
                [0..<length bs]"
      using that
      by (intro nth_equalityI)
         (simp_all add: cosine_similarity_def transform_def cosine_similarity_entry)
    then show ?thesis
      by (simp add: sum_list_sum_nth atLeast0LessThan)
  qed
  then have "map (\<lambda>j. sum_list (map (\<lambda>row. row ! j)
              (cosine_similarity (transform vz (map title bs)) (transform vz (map content all_books))))
              / real (length bs)) [0..<length all_books]
        = map (\<lambda>j. (\<Sum>i<length bs. cosine_spec (tfidf_row vz (title (bs ! i)))
                                            (tfidf_row vz (content (all_books ! j))))
                       / real (length bs)) [0..<length all_books]"
    by simp
  moreover have "length (cosine_similarity (transform vz (map title bs))
                    (transform vz (map content all_books))) = length bs"
    by (simp add: cosine_similarity_def transform_def)
  moreover have "length (transform vz (map content all_books)) = length all_books"
    by (simp add: transform_def)
  ultimately show ?thesis
    using assms ne
    by (simp add: recommendation_scores_def fit_transform_def mean_axis0_def Let_def)
qed

lemma recommendation_scores_Inr:
  assumes "recommendation_scores english bs c = Inr scores"
  shows "\<exists>vz. fit (TfidfVectorizer_init english) (map content c) = Inr vz"
    and "length scores = length c"
proof -
  from assms show ex: "\<exists>vz. fit (TfidfVectorizer_init english) (map content c) = Inr vz"
    by (auto simp: recommendation_scores_def fit_transform_def split: if_splits sum.splits)
  then obtain vz where "fit (TfidfVectorizer_init english) (map content c) = Inr vz" ..
  from recommendation_scores_fit [OF this, of bs] assms show "length scores = length c"
    by auto
qed

text \<open>
  Titles that share no term with any catalog document give the zero profile, and then
  every score is 0.
\<close>

lemma scores_zero:
  assumes "\<exists>d\<in>set c. build_analyzer english (content d) \<noteq> []"
    and "\<forall>b\<in>set bs. \<forall>d\<in>set c.
           set (build_analyzer english (title b)) \<inter> set (build_analyzer english (content d)) = {}"
  shows "recommendation_scores english bs c = Inr (replicate (length c) 0)"
proof -
  let ?analyzed = "map (build_analyzer english) (map content c)"
  let ?vocab = "sort (remdups (concat ?analyzed))"
  from assms(1) obtain d t where "d \<in> set c" and "t \<in> set (build_analyzer english (content d))"
    by (metis last_in_set)
  then have "t \<in> set ?vocab" by auto
  then have ne: "?vocab \<noteq> []" by (metis empty_iff empty_set)
  obtain vz where vz: "fit (TfidfVectorizer_init english) (map content c) = Inr vz"
    and voc: "vocabulary' vz = ?vocab" and stop: "stop_words vz = english"
    using ne by (simp add: fit_def Let_def TfidfVectorizer_init_def)
  have zero: "\<forall>x\<in>set (tfidf_row vz (title b)). x = 0" if "b \<in> set bs" for b
  proof -
    have "count_list (build_analyzer english (title b)) t = 0" if "t \<in> set ?vocab" for t
      using assms(2) \<open>b \<in> set bs\<close> that by (auto simp: count_list_0_iff)
    then have "\<forall>x\<in>set (count_vector (vocabulary' vz) (build_analyzer english (title b))). x = 0"
      by (auto simp: count_vector_def voc)
    then have "\<forall>x\<in>set (map2 (*) (count_vector (vocabulary' vz)
                                   (build_analyzer english (title b))) (idf' vz)). x = 0"
      by (auto dest!: set_zip_leftD)
    then show ?thesis
      by (auto simp: tfidf_row_def normalize_l2_def stop Let_def)
  qed
  have "cosine_spec (tfidf_row vz (title (bs ! i))) y = 0" if "i < length bs" for i y
    using zero [of "bs ! i"] that by (simp add: cosine_spec_def list_all_iff)
  then show ?thesis
    by (simp add: recommendation_scores_fit [OF vz] map_replicate_const)
qed

text \<open>The fitted vectorizer computes the specification's vocabulary, weights and vectors.\<close>

lemma fit_is_spec:
  assumes "fit (TfidfVectorizer_init english) documents = Inr vz"
  shows "vocabulary' vz = vocabulary_spec english documents"
    and "idf' vz = map (idf_spec english documents) (vocabulary_spec english documents)"
proof -
  note f = fit_fields [OF assms]
  show v: "vocabulary' vz = vocabulary_spec english documents"
    by (simp add: f(2) vocabulary_spec_def)
  have "smooth_idf (length documents) (document_frequency (map (build_analyzer english) documents) t)
        = idf_spec english documents t" for t
    by (simp add: smooth_idf_def document_frequency_def idf_spec_def filter_map comp_def)
  then show "idf' vz = map (idf_spec english documents) (vocabulary_spec english documents)"
    by (subst f(3)) (simp add: v)
qed

lemma tfidf_row_is_vector_spec:
  assumes "fit (TfidfVectorizer_init english) documents = Inr vz"
  shows "tfidf_row vz doc = vector_spec english documents doc"
proof -
  note s = fit_is_spec [OF assms] and f = fit_fields(1) [OF assms]
  have "map2 (*) (count_vector (vocabulary' vz) (build_analyzer (stop_words vz) doc)) (idf' vz)
        = map (\<lambda>t. real (count_list (build_analyzer english doc) t) * idf_spec english documents t)
              (vocabulary_spec english documents)"
    unfolding s f count_vector_def by (simp add: map2_map_map)
  then show ?thesis
    by (simp add: tfidf_row_def vector_spec_def normalize_l2_cases Let_def)
qed


section \<open>Sorting the positions\<close>

lemma argsort_stable_ok: "argsort_ok argsort_stable"
  by (simp add: argsort_ok_def is_argsort_def argsort_stable_def)

lemma argsort_ok_mset: "argsort_ok argsort \<Longrightarrow> mset (argsort a) = mset [0..<length a]"
  by (simp add: argsort_ok_def is_argsort_def)

lemma argsort_ok_sorted: "argsort_ok argsort \<Longrightarrow> sorted (map (\<lambda>i. a ! i) (argsort a))"
  by (simp add: argsort_ok_def is_argsort_def)

text \<open>
  Insertion keeps the order "smaller key first, and among equal keys the smaller
  position first", provided the inserted position is smaller than all those present.
\<close>

lemma insort_key_ties:
  fixes f :: "nat \<Rightarrow> real"
  assumes "sorted_wrt (\<lambda>a b. f a < f b \<or> f a = f b \<and> a < b) xs" and "\<forall>y\<in>set xs. x < y"
  shows "sorted_wrt (\<lambda>a b. f a < f b \<or> f a = f b \<and> a < b) (insort_key f x xs)"
  using assms
proof (induction xs)
  case Nil
  show ?case by simp
next
  case (Cons y ys)
  show ?case
  proof (cases "f x \<le> f y")
    case True
    have "f x < f z \<or> f x = f z \<and> x < z" if "z \<in> set (y # ys)" for z
    proof (cases "z = y")
      case True
      with \<open>f x \<le> f y\<close> Cons.prems(2) show ?thesis by auto
    next
      case False
      with that have "z \<in> set ys" by simp
      with Cons.prems(1) have "f y \<le> f z" by auto
      with \<open>f x \<le> f y\<close> Cons.prems(2) that show ?thesis by auto
    qed
    with True Cons.prems(1) show ?thesis by auto
  next
    case False
    with Cons show ?thesis by (auto simp: set_insort_key)
  qed
qed

lemma sort_key_ties:
  fixes f :: "nat \<Rightarrow> real"
  assumes "sorted_wrt (<) xs"
  shows "sorted_wrt (\<lambda>a b. f a < f b \<or> f a = f b \<and> a < b) (sort_key f xs)"
  using assms
proof (induction xs)
  case Nil
  show ?case by simp
next
  case (Cons x xs)
  then show ?case by (simp add: insort_key_ties)
qed

lemma argsort_stable_ties:
  "sorted_wrt (\<lambda>i j. a ! i < a ! j \<or> a ! i = a ! j \<and> i < j) (argsort_stable a)"
  unfolding argsort_stable_def by (rule sort_key_ties) simp

lemma unborrowed_indices_stable_order:
  "sorted_wrt (\<lambda>i j. a ! j < a ! i \<or> a ! i = a ! j \<and> j < i)
     (unborrowed_indices bs c (rev (argsort_stable a)))"
proof -
  have "sorted_wrt (\<lambda>i j. a ! j < a ! i \<or> a ! j = a ! i \<and> j < i) (rev (argsort_stable a))"
    using argsort_stable_ties [of a] by (simp add: sorted_wrt_rev)
  then have "sorted_wrt (\<lambda>i j. a ! j < a ! i \<or> a ! i = a ! j \<and> j < i) (rev (argsort_stable a))"
    by (rule sorted_wrt_mono_rel [rotated]) auto
  then show ?thesis
    unfolding unborrowed_indices_def by (rule sorted_wrt_filter)
qed

text \<open>A permutation of the positions, filtered, hands out every unborrowed row once.\<close>

lemma mset_unborrowed:
  assumes "mset p = mset [0..<length c]"
  shows "mset (map (\<lambda>idx. c ! idx) (unborrowed_indices bs c p))
         = mset (filter (\<lambda>b. Book_id b \<notin> set (map Book_id bs)) c)"
proof -
  let ?Q = "\<lambda>b. Book_id b \<notin> set (map Book_id bs)"
  have "map (\<lambda>idx. c ! idx) (unborrowed_indices bs c p) = filter ?Q (map (\<lambda>idx. c ! idx) p)"
    by (simp add: unborrowed_indices_def filter_map comp_def)
  moreover have "mset (map (\<lambda>idx. c ! idx) p) = mset c"
  proof -
    have "mset (map (\<lambda>idx. c ! idx) p) = image_mset (\<lambda>idx. c ! idx) (mset p)" by simp
    also have "\<dots> = mset (map (\<lambda>idx. c ! idx) [0..<length c])" using assms by simp
    also have "\<dots> = mset c" by (simp add: map_nth)
    finally show ?thesis .
  qed
  ultimately show ?thesis by (metis mset_filter)
qed




section \<open>The core and the truncation\<close>

lemma get_recommendations_Inr:
  assumes "get_recommendations argsort english bs c = Inr ranked" and "bs \<noteq> []"
  obtains scores where "recommendation_scores english bs c = Inr scores"
    and "length scores = length c"
    and "ranked = map (\<lambda>i. c ! i) (unborrowed_indices bs c (rev (argsort scores)))"
proof -
  from assms obtain scores where s: "recommendation_scores english bs c = Inr scores"
    and r: "ranked = map (\<lambda>i. c ! i) (unborrowed_indices bs c (rev (argsort scores)))"
    by (auto simp: get_recommendations_def Let_def split: sum.splits)
  with recommendation_scores_Inr(2) [OF s] that show thesis by blast
qed

lemma ranked_mset:
  assumes "get_recommendations argsort english bs c = Inr ranked" and "bs \<noteq> []"
    and "argsort_ok argsort"
  shows "mset ranked = mset (filter (\<lambda>b. Book_id b \<notin> set (map Book_id bs)) c)"
proof -
  from assms(1,2) obtain scores where len: "length scores = length c"
    and r: "ranked = map (\<lambda>i. c ! i) (unborrowed_indices bs c (rev (argsort scores)))"
    by (rule get_recommendations_Inr)
  have "mset (rev (argsort scores)) = mset [0..<length c]"
    using argsort_ok_mset [OF assms(3), of scores] len by simp
  then show ?thesis
    unfolding r by (rule mset_unborrowed)
qed

lemma length_slice_to:
  "length (slice_to xs k) = (if 0 \<le> k then min (nat k) (length xs) else length xs - nat (- k))"
  by (cases "0 \<le> k") (auto simp: slice_to_def)

lemma slice_to_all: "int (length xs) \<le> k \<Longrightarrow> slice_to xs k = xs"
  by (simp add: slice_to_def)

lemma set_slice_to: "set (slice_to xs k) \<subseteq> set xs"
  by (simp add: slice_to_def set_take_subset)

lemma recommend_Inr:
  assumes "recommend argsort english bs c k = Inr out"
  obtains ranked where "get_recommendations argsort english bs c = Inr ranked"
    and "out = slice_to ranked k"
  using assms by (auto simp: recommend_def split: sum.splits)


section \<open>The borrowed list of a user\<close>






section \<open>The sample data, evaluated\<close>

lemmas analyze_simps = build_analyzer_def content_def document_spec_def lower_def
  is_word_char_def english_excerpt_def dune_def emma_def it_book_def initials_def messiah_def
  beowulf_def beowulf_verse_def

lemma analyze_dune: "build_analyzer english_excerpt (content dune) = [''dune'', ''herbert'', ''scifi'']"
  by (simp add: analyze_simps)


lemma analyze_it_title: "build_analyzer english_excerpt (title it_book) = []"
  by (simp add: analyze_simps)

lemma analyze_initials: "build_analyzer english (content initials) = []"
  by (simp add: build_analyzer_def content_def lower_def is_word_char_def initials_def)


lemma analyze_messiah:
  "build_analyzer english_excerpt (document_spec messiah)
     = [''dune'', ''messiah'', ''herbert'', ''scifi'']"
  "build_analyzer english_excerpt (title messiah) = [''dune'', ''messiah'']"
  "build_analyzer english_excerpt ''Dune Messiah (uk)'' = [''dune'', ''messiah'', ''uk'']"
  by (simp_all add: analyze_simps)

lemma analyze_documents:
  "build_analyzer english_excerpt (document_spec dune) = [''dune'', ''herbert'', ''scifi'']"
  "build_analyzer english_excerpt (document_spec emma) = [''emma'', ''austen'', ''romance'']"
  by (simp_all add: analyze_simps)

lemma fit_dune:
  "fit (TfidfVectorizer_init english_excerpt) (map content [dune])
     = Inr \<lparr>stop_words = english_excerpt, vocabulary' = [''dune'', ''herbert'', ''scifi''],
            idf' = [1, 1, 1]\<rparr>"
  by (simp add: fit_def TfidfVectorizer_init_def analyze_dune document_frequency_def smooth_idf_def)


lemma fit_messiah:
  "fit (TfidfVectorizer_init english_excerpt) (map content [dune, messiah, emma])
     = Inr \<lparr>stop_words = english_excerpt,
            vocabulary' = [''austen'', ''dune'', ''emma'', ''herbert'', ''messiah'', ''romance'',
                           ''scifi''],
            idf' = [ln 2 + 1, ln (4 / 3) + 1, ln 2 + 1, ln (4 / 3) + 1, ln 2 + 1, ln 2 + 1,
                    ln (4 / 3) + 1]\<rparr>"
proof -
  have c: "map content [dune, messiah, emma] = map document_spec [dune, messiah, emma]"
    by (simp add: content_def document_spec_def)
  show ?thesis
    unfolding c
    by (simp add: fit_def TfidfVectorizer_init_def analyze_messiah analyze_documents
      document_frequency_def smooth_idf_def)
qed

lemma idf_of_shared_term: "ln (4 / 3 :: real) + 1 \<noteq> 0"
proof -
  have "0 < ln (4 / 3 :: real)" by simp
  then show ?thesis by linarith
qed

lemma vocabulary_messiah:
  "vocabulary_spec english_excerpt [document_spec dune, document_spec messiah, document_spec emma]
     = [''austen'', ''dune'', ''emma'', ''herbert'', ''messiah'', ''romance'', ''scifi'']"
  by (simp add: vocabulary_spec_def analyze_messiah analyze_documents)

lemma vector_messiah:
  "vector_spec english_excerpt (map document_spec [dune, messiah, emma]) (title messiah)
     = map (\<lambda>x. x / l2_norm [0, ln (4 / 3) + 1, 0, 0, ln 2 + 1, 0, 0])
           [0, ln (4 / 3) + 1, 0, 0, ln 2 + 1, 0, 0]"
proof -
  have i: "idf_spec english_excerpt [document_spec dune, document_spec messiah, document_spec emma]
             ''dune'' = ln (4 / 3) + 1"
    "idf_spec english_excerpt [document_spec dune, document_spec messiah, document_spec emma]
             ''messiah'' = ln 2 + 1"
    by (simp_all add: idf_spec_def analyze_messiah analyze_documents)
  show ?thesis
    using idf_of_shared_term
    by (simp add: vector_spec_def vocabulary_messiah analyze_messiah i Let_def)
qed

lemma ascii_samples:
  "list_all (\<lambda>d. ascii (title d) \<and> ascii (author d) \<and> ascii (genre d)) [dune, messiah, emma]"
  "list_all (\<lambda>b. ascii (title b)) [messiah]"
  "ascii (title messiah)" "ascii ''Dune Messiah (uk)''"
  by (simp_all add: ascii_def dune_def messiah_def emma_def)

lemma scores_it:
  "recommendation_scores english_excerpt [it_book] [dune, emma, it_book] = Inr [0, 0, 0]"
  using scores_zero [of "[dune, emma, it_book]" english_excerpt "[it_book]"]
  by (simp add: analyze_dune analyze_it_title numeral_3_eq_3)


lemma argsort_stable_zeros: "argsort_stable [0, 0, 0] = [0, 1, 2]"
  by (simp add: argsort_stable_def upt_rec numeral_nat)



lemma unborrowed_it:
  "unborrowed_indices [it_book] [dune, emma, it_book] (rev (argsort_stable [0, 0, 0])) = [1, 0]"
  by (simp add: argsort_stable_zeros unborrowed_indices_def) (simp add: dune_def emma_def it_book_def)


lemma recommendations_it:
  "get_recommendations argsort_stable english_excerpt [it_book] [dune, emma, it_book]
     = Inr [emma, dune]"
  by (simp add: get_recommendations_def scores_it unborrowed_it)



section \<open>Order of the ranking\<close>

text \<open>
  C1, as stated, fails.  The borrowed title "It" is a stop word, so the three scores tie
  at 0; with the stable \<open>argsort\<close> the reversal hands out "Emma" (second in the catalog)
  before "Dune" (first in the catalog).
\<close>

theorem ties_keep_catalog_order_counterexample:
  "recommendation_scores english_excerpt [it_book] [dune, emma, it_book] = Inr [0, 0, 0]
   \<and> recommend argsort_stable english_excerpt [it_book] [dune, emma, it_book] 2 = Inr [emma, dune]"
  by (simp add: scores_it recommend_def recommendations_it slice_to_def)

text \<open>
  C1, amended.  For a non-empty borrowed list whose scores are computed and a limit
  \<open>k \<ge> 0\<close>, the output is the first \<open>k\<close> books at the unborrowed positions of the
  reversed \<open>argsort\<close>; along these positions the scores never increase.  The code has no
  tie-break of its own: with the stable \<open>argsort\<close>, positions of equal score come in
  descending catalog position, the later catalog item first.
\<close>

theorem ranking_descending_ties_reversed:
  assumes "recommendation_scores english bs c = Inr scores" and "bs \<noteq> []"
    and "argsort_ok argsort" and "0 \<le> k"
  shows "recommend argsort english bs c k
           = Inr (map (\<lambda>i. c ! i) (take (nat k) (unborrowed_indices bs c (rev (argsort scores)))))
       \<and> sorted_wrt (\<lambda>i j. scores ! j \<le> scores ! i)
           (unborrowed_indices bs c (rev (argsort scores)))
       \<and> sorted_wrt (\<lambda>i j. scores ! j < scores ! i \<or> scores ! i = scores ! j \<and> j < i)
           (unborrowed_indices bs c (rev (argsort_stable scores)))"
proof (intro conjI)
  show "recommend argsort english bs c k
          = Inr (map (\<lambda>i. c ! i) (take (nat k) (unborrowed_indices bs c (rev (argsort scores)))))"
    using assms(1,2,4)
    by (simp add: recommend_def get_recommendations_def slice_to_def take_map)
  have "sorted_wrt (\<lambda>i j. scores ! i \<le> scores ! j) (argsort scores)"
    using argsort_ok_sorted [OF assms(3), of scores] by (simp add: sorted_wrt_map)
  then have "sorted_wrt (\<lambda>i j. scores ! j \<le> scores ! i) (rev (argsort scores))"
    by (simp add: sorted_wrt_rev)
  then show "sorted_wrt (\<lambda>i j. scores ! j \<le> scores ! i)
               (unborrowed_indices bs c (rev (argsort scores)))"
    unfolding unborrowed_indices_def by (rule sorted_wrt_filter)
  show "sorted_wrt (\<lambda>i j. scores ! j < scores ! i \<or> scores ! i = scores ! j \<and> j < i)
          (unborrowed_indices bs c (rev (argsort_stable scores)))"
    by (rule unborrowed_indices_stable_order)
qed

text \<open>The amended C1 at the sample catalog: the tied positions come out as 1, then 0.\<close>

theorem ranking_descending_ties_reversed_witness:
  "recommendation_scores english_excerpt [it_book] [dune, emma, it_book] = Inr [0, 0, 0]
   \<and> [it_book] \<noteq> [] \<and> argsort_ok argsort_stable \<and> (0::int) \<le> 2
   \<and> recommend argsort_stable english_excerpt [it_book] [dune, emma, it_book] 2 = Inr [emma, dune]
   \<and> unborrowed_indices [it_book] [dune, emma, it_book] (rev (argsort_stable [0, 0, 0])) = [1, 0]
   \<and> sorted_wrt (\<lambda>i j. [0, 0, 0 :: real] ! j < [0, 0, 0] ! i
                       \<or> [0, 0, 0 :: real] ! i = [0, 0, 0] ! j \<and> j < i)
        (unborrowed_indices [it_book] [dune, emma, it_book] (rev (argsort_stable [0, 0, 0])))"
proof -
  have h1: "recommendation_scores english_excerpt [it_book] [dune, emma, it_book] = Inr [0, 0, 0]"
    by (rule scores_it)
  have h2: "[it_book] \<noteq> []" by simp
  have h3: "argsort_ok argsort_stable" by (rule argsort_stable_ok)
  have h4: "(0::int) \<le> 2" by simp
  have r: "recommend argsort_stable english_excerpt [it_book] [dune, emma, it_book] 2
             = Inr [emma, dune]"
    using ranking_descending_ties_reversed [OF h1 h2 h3 h4] by (simp add: unborrowed_it)
  from ranking_descending_ties_reversed [OF h1 h2 h3 h4] h1 h2 h3 h4 unborrowed_it r
  show ?thesis by blast
qed

section \<open>Degenerate inputs\<close>

text \<open>
  C2.  An empty borrowed list gives the empty sequence for every catalog and limit.  A
  non-empty borrowed list with an empty catalog does not: the column read on the empty
  frame raises \<^verbatim>\<open>KeyError\<close>.
\<close>

theorem empty_borrowed_returns_empty_catalog_raises:
  "recommend argsort english [] catalog k = Inr []
   \<and> recommend argsort english (item # items) [] k = Inl KeyError"
  by (simp add: recommend_def get_recommendations_def recommendation_scores_def slice_to_def)

text \<open>
  C3.  A catalog whose documents hold no term of two or more characters outside the
  stop words makes the vectorizer raise \<^verbatim>\<open>ValueError\<close>, for every stop-word list, every
  \<open>argsort\<close> and every limit; the endpoint reaches this with a one-book library whose
  only book the user has borrowed.
\<close>

theorem empty_vocabulary_raises:
  "recommend argsort english [initials] [initials] k = Inl ValueError
   \<and> get_my_recommendations argsort english initials_library reader = Inl ValueError"
proof -
  have "fit (TfidfVectorizer_init english) (map content [initials]) = Inl ValueError"
    by (simp add: fit_def TfidfVectorizer_init_def analyze_initials)
  then have core: "get_recommendations argsort english [initials] [initials] = Inl ValueError"
    by (simp add: get_recommendations_def recommendation_scores_def fit_transform_def)
  have "query_user_borrowed_books initials_library 7 = [initials]"
    by (simp add: query_user_borrowed_books_def joined_rows_def initials_library_def initials_def)
  with core show ?thesis
    by (simp add: recommend_def get_my_recommendations_def crud_get_recommendations_def
        reader_def) (simp add: initials_library_def)
qed

section \<open>The limit\<close>

text \<open>
  C4, as stated, fails for a negative limit: \<^verbatim>\<open>recommended_books[:-1]\<close> drops the last
  book only, so one book is returned although \<open>max k 0 = 0\<close>.
\<close>

theorem negative_limit_counterexample:
  "recommend argsort_stable english_excerpt [it_book] [dune, emma, it_book] (- 1) = Inr [emma]
   \<and> \<not> int (length [emma]) \<le> max (- 1) 0"
  by (simp add: recommend_def recommendations_it slice_to_def)

text \<open>
  C4, amended.  When the core returns a ranking, \<open>recommend\<close> returns its slice
  \<^verbatim>\<open>[:k]\<close>: for \<open>k \<ge> 0\<close> the first \<open>k\<close> books, hence at most \<open>k\<close> of them and none for
  \<open>k = 0\<close>; for \<open>k < 0\<close> all but the last \<open>-k\<close>; and for \<open>k\<close> at least the length of the
  ranking the whole ranking, which for a non-empty borrowed list is every unborrowed
  catalog row once, with nothing added.
\<close>

theorem recommend_limit:
  assumes "get_recommendations argsort english bs c = Inr ranked"
  shows "recommend argsort english bs c k = Inr (slice_to ranked k)
       \<and> length (slice_to ranked k)
           = (if 0 \<le> k then min (nat k) (length ranked) else length ranked - nat (- k))
       \<and> (0 \<le> k \<longrightarrow> slice_to ranked k = take (nat k) ranked \<and> int (length (slice_to ranked k)) \<le> k)
       \<and> (int (length ranked) \<le> k \<longrightarrow> slice_to ranked k = ranked)
       \<and> (bs \<noteq> [] \<and> argsort_ok argsort \<longrightarrow>
            mset ranked = mset (filter (\<lambda>b. Book_id b \<notin> set (map Book_id bs)) c))"
proof (intro conjI impI)
  show "recommend argsort english bs c k = Inr (slice_to ranked k)"
    using assms by (simp add: recommend_def)
  show "length (slice_to ranked k)
          = (if 0 \<le> k then min (nat k) (length ranked) else length ranked - nat (- k))"
    by (rule length_slice_to)
  show "slice_to ranked k = take (nat k) ranked" if "0 \<le> k"
    using that by (simp add: slice_to_def)
  show "int (length (slice_to ranked k)) \<le> k" if "0 \<le> k"
    using that by (simp add: length_slice_to)
  show "slice_to ranked k = ranked" if "int (length ranked) \<le> k"
    using that by (rule slice_to_all)
  show "mset ranked = mset (filter (\<lambda>b. Book_id b \<notin> set (map Book_id bs)) c)"
    if "bs \<noteq> [] \<and> argsort_ok argsort"
    using ranked_mset [OF assms] that by blast
qed

text \<open>The amended C4 at the sample catalog, with limits 1 and 5.\<close>

theorem recommend_limit_witness:
  "get_recommendations argsort_stable english_excerpt [it_book] [dune, emma, it_book]
     = Inr [emma, dune]
   \<and> recommend argsort_stable english_excerpt [it_book] [dune, emma, it_book] 1 = Inr [emma]
   \<and> recommend argsort_stable english_excerpt [it_book] [dune, emma, it_book] 5 = Inr [emma, dune]
   \<and> mset [emma, dune]
     = mset (filter (\<lambda>b. Book_id b \<notin> set (map Book_id [it_book])) [dune, emma, it_book])"
proof -
  have h: "get_recommendations argsort_stable english_excerpt [it_book] [dune, emma, it_book]
             = Inr [emma, dune]"
    by (rule recommendations_it)
  have s1: "slice_to [emma, dune] 1 = [emma]" and s5: "slice_to [emma, dune] 5 = [emma, dune]"
    by (simp_all add: slice_to_def)
  from recommend_limit [OF h, of 1] recommend_limit [OF h, of 5] argsort_stable_ok h s1 s5
  show ?thesis by (metis list.distinct(1))
qed

section \<open>No borrowed book is recommended\<close>

text \<open>
  C5, as stated, fails for the empty borrowed list: the early return gives no book at
  all, although the one catalog book is unborrowed and the limit is large enough.
\<close>

theorem empty_history_counterexample:
  "recommend argsort_stable english_excerpt [] [dune] 10 = Inr []
   \<and> filter (\<lambda>b. Book_id b \<notin> set (map Book_id [])) [dune] = [dune]
   \<and> int (length [dune]) \<le> 10"
  by (simp add: recommend_def get_recommendations_def slice_to_def)

text \<open>
  C5, amended.  Whenever \<open>recommend\<close> returns, every book of the output is a catalog row
  whose id is not the id of a borrowed book; and if moreover the borrowed list is not
  empty and the limit is at least the number of unborrowed catalog rows, the output holds
  every unborrowed catalog row exactly once.
\<close>

theorem only_unborrowed_and_exhaustive:
  assumes "recommend argsort english bs c k = Inr out" and "argsort_ok argsort"
  shows "(\<forall>x\<in>set out. x \<in> set c \<and> Book_id x \<notin> set (map Book_id bs))
       \<and> (bs \<noteq> [] \<and> int (length (filter (\<lambda>b. Book_id b \<notin> set (map Book_id bs)) c)) \<le> k \<longrightarrow>
            mset out = mset (filter (\<lambda>b. Book_id b \<notin> set (map Book_id bs)) c))"
proof -
  let ?Q = "\<lambda>b. Book_id b \<notin> set (map Book_id bs)"
  from assms(1) obtain ranked where g: "get_recommendations argsort english bs c = Inr ranked"
    and out: "out = slice_to ranked k"
    by (rule recommend_Inr)
  show ?thesis
  proof (cases "bs = []")
    case True
    with g have "ranked = []" by (simp add: get_recommendations_def)
    with out True show ?thesis by (simp add: slice_to_def)
  next
    case False
    have m: "mset ranked = mset (filter ?Q c)"
      using g False assms(2) by (rule ranked_mset)
    then have "set ranked = set (filter ?Q c)"
      by (rule mset_eq_setD)
    with set_slice_to [of ranked k] out have "\<forall>x\<in>set out. x \<in> set c \<and> ?Q x"
      by auto
    moreover have "mset out = mset (filter ?Q c)" if "int (length (filter ?Q c)) \<le> k"
    proof -
      from m have "length ranked = length (filter ?Q c)"
        by (rule mset_eq_length)
      with that out show ?thesis by (simp add: slice_to_all m)
    qed
    ultimately show ?thesis by blast
  qed
qed

text \<open>The amended C5 at the sample catalog, limit 2.\<close>

theorem only_unborrowed_and_exhaustive_witness:
  "recommend argsort_stable english_excerpt [it_book] [dune, emma, it_book] 2 = Inr [emma, dune]
   \<and> argsort_ok argsort_stable
   \<and> emma \<in> set [dune, emma, it_book] \<and> Book_id emma \<notin> set (map Book_id [it_book])
   \<and> dune \<in> set [dune, emma, it_book] \<and> Book_id dune \<notin> set (map Book_id [it_book])
   \<and> [it_book] \<noteq> []
   \<and> int (length (filter (\<lambda>b. Book_id b \<notin> set (map Book_id [it_book])) [dune, emma, it_book])) \<le> 2
   \<and> mset [emma, dune]
     = mset (filter (\<lambda>b. Book_id b \<notin> set (map Book_id [it_book])) [dune, emma, it_book])"
proof -
  have h1: "recommend argsort_stable english_excerpt [it_book] [dune, emma, it_book] 2
              = Inr [emma, dune]"
    by (simp add: recommend_def recommendations_it slice_to_def)
  have h2: "argsort_ok argsort_stable" by (rule argsort_stable_ok)
  have h3: "int (length (filter (\<lambda>b. Book_id b \<notin> set (map Book_id [it_book]))
                   [dune, emma, it_book])) \<le> 2"
    by (simp add: dune_def emma_def it_book_def)
  from only_unborrowed_and_exhaustive [OF h1 h2] h1 h2 h3 show ?thesis
    by simp
qed

section \<open>What a score is\<close>

text \<open>
  C6.  Once the vectorizer is fitted on the catalog documents, the score of catalog
  position \<open>j\<close> is the sum, over every position \<open>i\<close> of the borrowed list (a book listed
  twice is counted twice), of the specification's cosine between the vector of the
  \<open>i\<close>-th borrowed title and the vector of the \<open>j\<close>-th catalog document, divided by the
  length of the borrowed list; the specification's cosine is 0 when either vector is the
  zero vector.
\<close>

theorem scores_are_mean_cosine:
  assumes "fit (TfidfVectorizer_init english) (map content all_books) = Inr vz"
    and "user_borrowed_books \<noteq> []"
  shows "recommendation_scores english user_borrowed_books all_books =
           Inr (map (\<lambda>j. (\<Sum>i<length user_borrowed_books.
                              cosine_spec (tfidf_row vz (title (user_borrowed_books ! i)))
                                          (tfidf_row vz (content (all_books ! j))))
                          / real (length user_borrowed_books))
                    [0..<length all_books])"
  using assms(1) by (rule recommendation_scores_fit)

text \<open>C6 at a one-book catalog, the borrowed list naming the same book twice.\<close>

theorem scores_are_mean_cosine_witness:
  "fit (TfidfVectorizer_init english_excerpt) (map content [dune])
     = Inr \<lparr>stop_words = english_excerpt, vocabulary' = [''dune'', ''herbert'', ''scifi''],
            idf' = [1, 1, 1]\<rparr>
   \<and> [dune, dune] \<noteq> []
   \<and> recommendation_scores english_excerpt [dune, dune] [dune] =
       Inr (map (\<lambda>j. (\<Sum>i<length [dune, dune].
              cosine_spec
                (tfidf_row \<lparr>stop_words = english_excerpt,
                            vocabulary' = [''dune'', ''herbert'', ''scifi''], idf' = [1, 1, 1]\<rparr>
                   (title ([dune, dune] ! i)))
                (tfidf_row \<lparr>stop_words = english_excerpt,
                            vocabulary' = [''dune'', ''herbert'', ''scifi''], idf' = [1, 1, 1]\<rparr>
                   (content ([dune] ! j))))
            / real (length [dune, dune])) [0..<length [dune]])"
proof -
  have h2: "[dune, dune] \<noteq> []" by simp
  from scores_are_mean_cosine [OF fit_dune h2] fit_dune h2 show ?thesis
    by blast
qed

section \<open>Where the vectors come from\<close>

text \<open>
  C7.  For a catalog and borrowed titles of ASCII text on which the vectorizer can be
  fitted: the user profile is the list of the specification's vectors of the borrowed
  titles, and the catalog matrix the list of the specification's vectors of the catalog
  documents (title, author and genre joined by spaces), both in the vector space of the
  catalog documents, so the weights in a title's vector are the idf weights of the
  catalog, whatever the borrowed titles are; the scores are computed from these two lists;
  every vector has exactly one component per vocabulary term of the catalog; and two texts
  in which every vocabulary term occurs equally often have the same vector, so terms
  outside the vocabulary are dropped.
\<close>

theorem profile_is_titles_in_catalog_space:
  assumes "fit (TfidfVectorizer_init english) (map content all_books) = Inr vz"
    and "list_all (\<lambda>d. ascii (title d) \<and> ascii (author d) \<and> ascii (genre d)) all_books"
    and "list_all (\<lambda>b. ascii (title b)) bs"
  shows "transform vz (map title bs)
           = map (\<lambda>b. vector_spec english (map document_spec all_books) (title b)) bs
       \<and> transform vz (map content all_books)
           = map (\<lambda>d. vector_spec english (map document_spec all_books) (document_spec d)) all_books
       \<and> recommendation_scores english bs all_books
           = Inr (mean_axis0
                   (cosine_similarity
                      (map (\<lambda>b. vector_spec english (map document_spec all_books) (title b)) bs)
                      (map (\<lambda>d. vector_spec english (map document_spec all_books) (document_spec d))
                           all_books))
                   (length all_books))
       \<and> length (vector_spec english (map document_spec all_books) doc)
           = length (vocabulary_spec english (map document_spec all_books))
       \<and> (ascii doc \<and> ascii other
            \<and> map (count_list (build_analyzer english doc))
                  (vocabulary_spec english (map document_spec all_books))
              = map (count_list (build_analyzer english other))
                    (vocabulary_spec english (map document_spec all_books))
          \<longrightarrow> vector_spec english (map document_spec all_books) doc
              = vector_spec english (map document_spec all_books) other)"
proof -
  have docs: "map content all_books = map document_spec all_books"
    by (simp add: content_def document_spec_def)
  note row = tfidf_row_is_vector_spec [OF assms(1), unfolded docs]
  have ne: "all_books \<noteq> []"
    using assms(1) by (auto simp: fit_def Let_def)
  have a: "transform vz (map title bs)
           = map (\<lambda>b. vector_spec english (map document_spec all_books) (title b)) bs"
    by (simp add: transform_def row)
  have b: "transform vz (map content all_books)
           = map (\<lambda>d. vector_spec english (map document_spec all_books) (document_spec d)) all_books"
    by (simp add: transform_def row docs)
  have c: "recommendation_scores english bs all_books
           = Inr (mean_axis0 (cosine_similarity (transform vz (map title bs))
                                (transform vz (map content all_books))) (length all_books))"
    using assms(1) ne
    by (simp add: recommendation_scores_def fit_transform_def Let_def transform_def)
  have d: "length (vector_spec english (map document_spec all_books) doc)
           = length (vocabulary_spec english (map document_spec all_books))"
    by (simp add: vector_spec_def Let_def)
  have e: "vector_spec english (map document_spec all_books) doc
              = vector_spec english (map document_spec all_books) other"
    if "map (count_list (build_analyzer english doc))
                  (vocabulary_spec english (map document_spec all_books))
              = map (count_list (build_analyzer english other))
                    (vocabulary_spec english (map document_spec all_books))"
  proof -
    from that have "count_list (build_analyzer english doc) t
                    = count_list (build_analyzer english other) t"
      if "t \<in> set (vocabulary_spec english (map document_spec all_books))" for t
      using that by (meson map_eq_conv)
    then have "map (\<lambda>t. real (count_list (build_analyzer english doc) t)
                          * idf_spec english (map document_spec all_books) t)
                  (vocabulary_spec english (map document_spec all_books))
             = map (\<lambda>t. real (count_list (build_analyzer english other) t)
                          * idf_spec english (map document_spec all_books) t)
                  (vocabulary_spec english (map document_spec all_books))"
      by simp
    then show ?thesis
      by (simp only: vector_spec_def)
  qed
  from a b c d e show ?thesis
    by (simp only: a b) blast
qed

text \<open>
  C7 at a catalog of three books, the second one borrowed.  "dune" occurs in two catalog
  documents and "messiah" in one, so the two components of the title's vector differ, as
  the catalog's weights do; "uk" is not in the vocabulary and changes nothing.
\<close>

theorem profile_is_titles_in_catalog_space_witness:
  "fit (TfidfVectorizer_init english_excerpt) (map content [dune, messiah, emma])
     = Inr \<lparr>stop_words = english_excerpt,
            vocabulary' = [''austen'', ''dune'', ''emma'', ''herbert'', ''messiah'', ''romance'',
                           ''scifi''],
            idf' = [ln 2 + 1, ln (4 / 3) + 1, ln 2 + 1, ln (4 / 3) + 1, ln 2 + 1, ln 2 + 1,
                    ln (4 / 3) + 1]\<rparr>
   \<and> list_all (\<lambda>d. ascii (title d) \<and> ascii (author d) \<and> ascii (genre d)) [dune, messiah, emma]
   \<and> list_all (\<lambda>b. ascii (title b)) [messiah]
   \<and> transform \<lparr>stop_words = english_excerpt,
            vocabulary' = [''austen'', ''dune'', ''emma'', ''herbert'', ''messiah'', ''romance'',
                           ''scifi''],
            idf' = [ln 2 + 1, ln (4 / 3) + 1, ln 2 + 1, ln (4 / 3) + 1, ln 2 + 1, ln 2 + 1,
                    ln (4 / 3) + 1]\<rparr> (map title [messiah])
     = [map (\<lambda>x. x / l2_norm [0, ln (4 / 3) + 1, 0, 0, ln 2 + 1, 0, 0])
            [0, ln (4 / 3) + 1, 0, 0, ln 2 + 1, 0, 0]]
   \<and> ascii (title messiah) \<and> ascii ''Dune Messiah (uk)''
   \<and> vector_spec english_excerpt (map document_spec [dune, messiah, emma]) (title messiah)
     = vector_spec english_excerpt (map document_spec [dune, messiah, emma]) ''Dune Messiah (uk)''"
proof -
  have cnt: "map (count_list (build_analyzer english_excerpt (title messiah)))
                  (vocabulary_spec english_excerpt (map document_spec [dune, messiah, emma]))
              = map (count_list (build_analyzer english_excerpt ''Dune Messiah (uk)''))
                    (vocabulary_spec english_excerpt (map document_spec [dune, messiah, emma]))"
    by (simp add: vocabulary_messiah analyze_messiah)
  from profile_is_titles_in_catalog_space [OF fit_messiah ascii_samples(1) ascii_samples(2),
      where doc = "title messiah" and other = "''Dune Messiah (uk)''"]
    fit_messiah ascii_samples cnt vector_messiah
  show ?thesis by simp
qed

section \<open>Determinism\<close>




section \<open>The borrowed-books listing\<close>

text \<open>
  C9.  For every user id, every database state and every offset and limit,
  \<^verbatim>\<open>crud.get_borrowed_books_by_user\<close> returns the empty list: the second criterion is the
  constant false.
\<close>

theorem get_borrowed_books_by_user_empty:
  "get_borrowed_books_by_user db uid skip limit = []"
  by (simp add: get_borrowed_books_by_user_def returned_date_is_None_def)

section \<open>The wrapper and the endpoint\<close>



end
